theory Spec2Isabelle
  imports Complex_Main
begin

section \<open>The decision node of the driving simulator\<close>

text \<open>
  A shallow embedding of \<^verbatim>\<open>src/drivex_decision/scripts/decision_maker.py\<close>: the four
  subscriber callbacks, \<^verbatim>\<open>gracefulStop\<close> and the body of the \<^verbatim>\<open>while\<close> loop of
  \<^verbatim>\<open>main\<close>.

  Conventions of the model.
  \<^item> Python floats are modelled by \<open>real\<close>: the program only copies and compares them,
    rounding, infinities and NaN are outside the model. The one conversion that can
    fail on a number, \<^verbatim>\<open>float\<close> of an integer beyond the double range, is modelled.
  \<^item> Everything the program does to the outside (window, publisher, console, file,
    process exit) is an \<open>event\<close>; a run is the list of its events, in order.
  \<^item> An exception is a value of type \<open>error\<close>. A callback mutates the shared dict in
    place, so it returns the dict as it stands when the callback ends together with the
    exception that ended it, if any.
  \<^item> Functions of libraries (json, float parsing, string formatting, OpenCV drawing) are
    parameters, collected in the record \<open>lib\<close>.
\<close>

subsection \<open>Exceptions\<close>

datatype error =
    JSONDecodeError
  | KeyError string
  | TypeError
  | ValueError
  | AttributeError
  | CvBridgeError
  | EOFError
  | OSError
  | OverflowError

subsection \<open>Values decoded from JSON\<close>

text \<open>
  What \<^verbatim>\<open>json.loads\<close> returns. A JSON object is a Python dict; it is written here as the
  list of its items, each key once (\<open>map_of\<close> reads it).
\<close>

datatype json =
    JNull
  | JBool bool
  | JInt int
  | JFloat real
  | JStr string
  | JArr "json list"
  | JObj "(string \<times> json) list"

text \<open>
  \<^verbatim>\<open>data[k]\<close> with a string key \<open>k\<close>: a dict raises KeyError for a missing key, every
  other JSON value raises TypeError (not subscriptable, or indices must be integers).
\<close>

fun getitem :: "json \<Rightarrow> string \<Rightarrow> error + json" where
  "getitem (JObj kvs) k =
     (case map_of kvs k of None \<Rightarrow> Inl (KeyError k) | Some v \<Rightarrow> Inr v)"
| "getitem JNull k = Inl TypeError"
| "getitem (JBool b) k = Inl TypeError"
| "getitem (JInt i) k = Inl TypeError"
| "getitem (JFloat x) k = Inl TypeError"
| "getitem (JStr s) k = Inl TypeError"
| "getitem (JArr xs) k = Inl TypeError"

text \<open>
  The least magnitude of an integer that \<^verbatim>\<open>float\<close> cannot convert: the largest double is
  \<open>2 ^ 1024 - 2 ^ 971\<close>, and an integer rounds (half to even) beyond it from
  \<open>2 ^ 1024 - 2 ^ 970\<close> on.
\<close>

definition float_int_bound :: int where
  "float_int_bound = 2 ^ 1024 - 2 ^ 970"

text \<open>
  \<^verbatim>\<open>float(v)\<close>: booleans and floats convert, an integer converts when it is within the
  double range and raises OverflowError otherwise, a string converts when it parses as
  a float (the parser \<open>p\<close> is the library's) and raises ValueError otherwise; None,
  lists and dicts raise TypeError.
\<close>

fun py_float :: "(string \<Rightarrow> real option) \<Rightarrow> json \<Rightarrow> error + real" where
  "py_float p (JInt i) =
     (if \<bar>i\<bar> < float_int_bound then Inr (of_int i) else Inl OverflowError)"
| "py_float p (JFloat x) = Inr x"
| "py_float p (JBool b) = Inr (if b then 1 else 0)"
| "py_float p (JStr s) = (case p s of None \<Rightarrow> Inl ValueError | Some x \<Rightarrow> Inr x)"
| "py_float p JNull = Inl TypeError"
| "py_float p (JArr xs) = Inl TypeError"
| "py_float p (JObj kvs) = Inl TypeError"

subsection \<open>Messages, the shared dict, the Twist\<close>

text \<open>A \<^verbatim>\<open>std_msgs\<close> message with its single field \<^verbatim>\<open>data\<close>.\<close>

record 'a std_msg =
  data :: 'a

text \<open>
  The dict \<^verbatim>\<open>config\<close> of \<^verbatim>\<open>main\<close>, one field per key, with the values the keys have when
  the loop starts (lines 77 to 93). \<open>'m\<close> is the type of image messages, \<open>'i\<close> the type
  of decoded images. The keys \<^verbatim>\<open>vel\<close> and \<^verbatim>\<open>twist_linear_x\<close> are created with None and
  never assigned. The key \<^verbatim>\<open>bridge\<close> holds the CvBridge object, which is used through
  its method \<^verbatim>\<open>imgmsg_to_cv2(message, "bgr8")\<close> only: the field holds that method.
\<close>

record ('m, 'i) config_dict =
  vel :: "real option"
  signal :: "string option"
  img_rgb :: "'i option"
  steering :: real
  bridge :: "'m \<Rightarrow> error + 'i"
  begin_img :: bool
  twist_linear_x :: "real option"
  crosswalk :: real
  velocity :: real

definition init_config :: "('m \<Rightarrow> error + 'i) \<Rightarrow> ('m, 'i) config_dict" where
  "init_config b =
     \<lparr>vel = None, signal = None, img_rgb = None, steering = 0, bridge = b,
      begin_img = False, twist_linear_x = None, crosswalk = 0, velocity = 0\<rparr>"

text \<open>The six components of a \<^verbatim>\<open>geometry_msgs/Twist\<close>.\<close>

record Twist =
  linear_x :: real
  linear_y :: real
  linear_z :: real
  angular_x :: real
  angular_y :: real
  angular_z :: real

definition Twist0 :: Twist where
  "Twist0 = \<lparr>linear_x = 0, linear_y = 0, linear_z = 0,
             angular_x = 0, angular_y = 0, angular_z = 0\<rparr>"

text \<open>
  The loaded yaml record \<^verbatim>\<open>info_loaded\<close>: the sub-dicts \<^verbatim>\<open>dataset\<close> (numeric fields)
  and \<^verbatim>\<open>model\<close> (string fields).
\<close>

record info =
  dataset :: "string \<rightharpoonup> real"
  model :: "string \<rightharpoonup> string"

subsection \<open>Library functions\<close>

record 'i lib =
  json_loads :: "string \<Rightarrow> json option"
  str_to_float :: "string \<Rightarrow> real option"
  py_round :: "real \<Rightarrow> nat \<Rightarrow> real"
  py_str :: "real \<Rightarrow> string"
  img_shape :: "'i \<Rightarrow> int \<times> int \<times> int"
  cv2_putText :: "'i \<Rightarrow> string \<Rightarrow> int \<times> int \<Rightarrow> 'i"

subsection \<open>Events\<close>

datatype 'i event =
    ImShow 'i
  | WaitKey
  | Publish Twist
  | Print string
  | Input string
  | YamlDump info
  | RateSleep
  | Exit int

text \<open>The commands sent to the actuation topic, in order.\<close>

fun published :: "'i event list \<Rightarrow> Twist list" where
  "published [] = []"
| "published (Publish t # es) = t # published es"
| "published (e # es) = published es"

text \<open>The images shown, in order.\<close>

fun displayed :: "'i event list \<Rightarrow> 'i list" where
  "displayed [] = []"
| "displayed (ImShow i # es) = i # displayed es"
| "displayed (e # es) = displayed es"

subsection \<open>Callbacks (lines 44 to 61)\<close>

text \<open>
  \<^verbatim>\<open>modelSteeringVelocityCallback\<close>: three statements, each of which may raise. The dict
  is returned as the raising statement finds it.
\<close>

definition modelSteeringVelocityCallback ::
  "'i lib \<Rightarrow> string std_msg \<Rightarrow> ('m, 'i) config_dict \<Rightarrow> ('m, 'i) config_dict \<times> error option" where
  "modelSteeringVelocityCallback L message config =
     (case json_loads L (data message) of
        None \<Rightarrow> (config, Some JSONDecodeError)
      | Some d \<Rightarrow>
         (case getitem d ''steering'' of
            Inl e \<Rightarrow> (config, Some e)
          | Inr s \<Rightarrow>
             (case py_float (str_to_float L) s of
                Inl e \<Rightarrow> (config, Some e)
              | Inr sv \<Rightarrow>
                 (let config1 = config\<lparr>steering := sv\<rparr> in
                  case getitem d ''velocity'' of
                    Inl e \<Rightarrow> (config1, Some e)
                  | Inr v \<Rightarrow>
                     (case py_float (str_to_float L) v of
                        Inl e \<Rightarrow> (config1, Some e)
                      | Inr vv \<Rightarrow> (config1\<lparr>velocity := vv\<rparr>, None))))))"

definition crosswalkSurenessCallback ::
  "real std_msg \<Rightarrow> ('m, 'i) config_dict \<Rightarrow> ('m, 'i) config_dict" where
  "crosswalkSurenessCallback message config = config\<lparr>crosswalk := data message\<rparr>"

definition signalCallback ::
  "string std_msg \<Rightarrow> ('m, 'i) config_dict \<Rightarrow> ('m, 'i) config_dict" where
  "signalCallback message config = config\<lparr>signal := Some (data message)\<rparr>"

definition imgRgbCallback ::
  "'m \<Rightarrow> ('m, 'i) config_dict \<Rightarrow> ('m, 'i) config_dict \<times> error option" where
  "imgRgbCallback message config =
     (case bridge config message of
        Inl e \<Rightarrow> (config, Some e)
      | Inr img \<Rightarrow> (config\<lparr>img_rgb := Some img, begin_img := True\<rparr>, None))"

subsection \<open>Drawing and stopping\<close>

text \<open>
  \<^verbatim>\<open>cv2PutText\<close> (lines 22 to 41) draws the text on the image it is given, at
  \<open>(0, h - 20)\<close>, and returns that image; font, colour and thickness are constants of the
  drawing call.
\<close>

definition cv2PutText :: "'i lib \<Rightarrow> 'i \<Rightarrow> string \<Rightarrow> 'i" where
  "cv2PutText L img text =
     (case img_shape L img of (h, w, c) \<Rightarrow> cv2_putText L img text (0, h - 20))"

text \<open>\<^verbatim>\<open>gracefulStop\<close> (lines 64 to 73): the twist after the call, and the event.\<close>

definition gracefulStop :: "Twist \<Rightarrow> Twist \<times> 'i event list" where
  "gracefulStop twist =
     (let twist1 = twist\<lparr>linear_x := 0\<rparr>;
          twist2 = twist1\<lparr>angular_z := 0\<rparr>
      in (twist2, [Publish twist2]))"

subsection \<open>The state of the loop and its environment\<close>

text \<open>
  What \<^verbatim>\<open>main\<close> holds when it enters the loop: the shared dict, the Twist object, the
  loaded yaml record and \<^verbatim>\<open>linear_velocity\<close>, read once from the record (line 123).
\<close>

record ('m, 'i) loop_state =
  config :: "('m, 'i) config_dict"
  twist :: Twist
  info_loaded :: info
  linear_velocity :: real

text \<open>
  Lines 77 to 123: the start values and the read of
  \<^verbatim>\<open>info_loaded["dataset"]["linear_velocity"]\<close>, a KeyError when the field is missing.
\<close>

definition startup :: "('m \<Rightarrow> error + 'i) \<Rightarrow> info \<Rightarrow> error + ('m, 'i) loop_state" where
  "startup b yaml =
     (case dataset yaml ''linear_velocity'' of
        None \<Rightarrow> Inl (KeyError ''linear_velocity'')
      | Some v \<Rightarrow>
          Inr \<lparr>config = init_config b, twist = Twist0, info_loaded = yaml,
               linear_velocity = v\<rparr>)"

text \<open>The constants of lines 95 and 96.\<close>

definition crosswalk_timeout :: real where
  "crosswalk_timeout = 18 / 100"

definition crosswalk_threshold :: real where
  "crosswalk_threshold = 85 / 100"

text \<open>A message of one of the four subscribed topics.\<close>

datatype 'm message =
    SignalMsg "string std_msg"
  | CrosswalkMsg "real std_msg"
  | ModelMsg "string std_msg"
  | ImageMsg 'm

text \<open>
  What the outside supplies to one iteration of the loop: the answer of
  \<^verbatim>\<open>rospy.is_shutdown()\<close>, the messages that arrived since the last iteration, the key
  returned by \<^verbatim>\<open>cv2.waitKey(1)\<close>, and, for the abort branch, the operator's two answers
  (None: \<^verbatim>\<open>input\<close> raises EOFError) and whether the yaml file can be written.
\<close>

record 'm env =
  is_shutdown :: bool
  inbox :: "'m message list"
  waitKey :: int
  input_comments :: "string option"
  input_eval :: "string option"
  yaml_dump_ok :: bool

datatype status =
    Continue
  | Stopped
  | Exited int
  | Raised error

text \<open>\<^verbatim>\<open>ord\<close> of a character.\<close>

definition ord :: "char \<Rightarrow> int" where
  "ord c = of_char c"

text \<open>
  The subscriber runs the callback of the message's topic (lines 132 to 135). An
  exception that leaves a callback is logged by the subscriber and goes no further; the
  dict keeps what the callback wrote before it raised.
\<close>

fun dispatch :: "'i lib \<Rightarrow> 'm message \<Rightarrow> ('m, 'i) config_dict \<Rightarrow> ('m, 'i) config_dict" where
  "dispatch L (SignalMsg m) c = signalCallback m c"
| "dispatch L (CrosswalkMsg m) c = crosswalkSurenessCallback m c"
| "dispatch L (ModelMsg m) c = fst (modelSteeringVelocityCallback L m c)"
| "dispatch L (ImageMsg m) c = fst (imgRgbCallback m c)"

fun deliver :: "'i lib \<Rightarrow> 'm message list \<Rightarrow> ('m, 'i) config_dict \<Rightarrow> ('m, 'i) config_dict" where
  "deliver L [] c = c"
| "deliver L (m # ms) c = deliver L ms (dispatch L m c)"

subsection \<open>The loop (lines 141 to 214)\<close>

text \<open>
  The abort branch, lines 177 to 209, from the Twist that lines 168 to 173 have set:
  stop command, message, the two prompts with their updates of the \<^verbatim>\<open>model\<close> sub-dict,
  the dump of the record, \<^verbatim>\<open>exit(0)\<close>.
\<close>

definition abort_branch :: "'m env \<Rightarrow> Twist \<Rightarrow> info \<Rightarrow> 'i event list \<times> Twist \<times> info \<times> status" where
  "abort_branch e twist0 info0 =
     (let (twist1, evs0) = gracefulStop twist0;
          evs1 = evs0 @ [Print ''Stopping the autonomous driving'',
                         Input ''[info.yaml] Additional comments about the model: '']
      in
      (case input_comments e of
        None \<Rightarrow> (evs1, twist1, info0, Raised EOFError)
      | Some comments \<Rightarrow>
         (let info1 =
                (case model info0 ''driving_comments'' of
                   None \<Rightarrow> info0\<lparr>model := (model info0)(''driving_comments'' \<mapsto> comments)\<rparr>
                 | Some old \<Rightarrow>
                     info0\<lparr>model := (model info0)(''driving_comments'' \<mapsto> old @ ''; '' @ comments)\<rparr>);
              evs2 = evs1 @
                [Input ''[info.yaml] Evaluate the model on a scale from 0 (bad) to 10 (good): '']
          in
          case input_eval e of
            None \<Rightarrow> (evs2, twist1, info1, Raised EOFError)
          | Some answer \<Rightarrow>
             (let model_eval = answer @ ''/10'';
                  info2 =
                    (case model info1 ''driving_model_eval'' of
                       None \<Rightarrow> info1\<lparr>model := (model info1)(''driving_model_eval'' \<mapsto> model_eval)\<rparr>
                     | Some old \<Rightarrow>
                         info1\<lparr>model := (model info1)(''driving_model_eval'' \<mapsto> old @ ''; '' @ model_eval)\<rparr>)
              in
              if yaml_dump_ok e
              then (evs2 @ [YamlDump info2, Exit 0], twist1, info2, Exited 0)
              else (evs2, twist1, info2, Raised OSError)))))"

text \<open>
  One iteration of the body of the \<^verbatim>\<open>while\<close> loop. Lines 152 to 165 are comments in the
  source and are no part of the body.
\<close>

definition tick ::
  "'i lib \<Rightarrow> 'm env \<Rightarrow> ('m, 'i) loop_state \<Rightarrow> 'i event list \<times> ('m, 'i) loop_state \<times> status" where
  "tick L e st =
     (if \<not> begin_img (config st) then ([], st, Continue)
      else
        case img_rgb (config st) of
          None \<Rightarrow> ([], st, Raised AttributeError)
        | Some img \<Rightarrow>
           (let crosswalk_sureness_percentage = py_round L (crosswalk (config st) * 100) 2;
                img1 = cv2PutText L img
                         (''Crosswalk detection: '' @ py_str L crosswalk_sureness_percentage @ ''%'');
                config1 = (config st)\<lparr>img_rgb := Some img1\<rparr>;
                key = waitKey e;
                twist1 = (twist st)
                  \<lparr>linear_x := velocity (config st), linear_y := 0, linear_z := 0,
                   angular_x := 0, angular_y := 0, angular_z := steering (config st)\<rparr>
            in
            if key = ord CHR ''q''
            then
              (case abort_branch e twist1 (info_loaded st) of
                 (evs, twist2, info2, s) \<Rightarrow>
                   ([ImShow img1, WaitKey] @ evs,
                    st\<lparr>config := config1, twist := twist2, info_loaded := info2\<rparr>, s))
            else
              ([ImShow img1, WaitKey, Publish twist1, RateSleep],
               st\<lparr>config := config1, twist := twist1\<rparr>, Continue)))"

text \<open>
  The loop, driven by what the outside supplies to each iteration; it may run forever,
  so a run is taken over a finite list of iterations and ends with \<open>Continue\<close> when the
  list is used up while the loop is still going. Callbacks run between iterations.
\<close>

fun run ::
  "'i lib \<Rightarrow> 'm env list \<Rightarrow> ('m, 'i) loop_state \<Rightarrow> 'i event list \<times> ('m, 'i) loop_state \<times> status" where
  "run L [] st = ([], st, Continue)"
| "run L (e # es) st =
     (if is_shutdown e then ([], st, Stopped)
      else
        case tick L e (st\<lparr>config := deliver L (inbox e) (config st)\<rparr>) of
          (evs, st1, Continue) \<Rightarrow>
            (case run L es st1 of (evs', st2, s) \<Rightarrow> (evs @ evs', st2, s))
        | (evs, st1, s) \<Rightarrow> (evs, st1, s))"

section \<open>Notions used in the statements\<close>

text \<open>
  A message that makes the loop operational: an image message that the bridge of the
  dict decodes.
\<close>

fun frame_decodes :: "('m, 'i) config_dict \<Rightarrow> 'm message \<Rightarrow> bool" where
  "frame_decodes c (ImageMsg m) = (case bridge c m of Inl e \<Rightarrow> False | Inr img \<Rightarrow> True)"
| "frame_decodes c (SignalMsg m) = False"
| "frame_decodes c (CrosswalkMsg m) = False"
| "frame_decodes c (ModelMsg m) = False"

text \<open>No iteration of the list receives an image message that decodes.\<close>

fun no_frame_yet :: "('m, 'i) config_dict \<Rightarrow> 'm env list \<Rightarrow> bool" where
  "no_frame_yet c [] = True"
| "no_frame_yet c (e # es) =
     (list_all (\<lambda>m. \<not> frame_decodes c m) (inbox e) \<and> no_frame_yet c es)"

text \<open>The four components of a command that the loop never drives.\<close>

fun side_zero :: "Twist \<Rightarrow> bool" where
  "side_zero t = (linear_y t = 0 \<and> linear_z t = 0 \<and> angular_x t = 0 \<and> angular_y t = 0)"

text \<open>The keys of the shared dict whose values differ between two dicts, in key order.\<close>

definition changed_slots :: "('m, 'i) config_dict \<Rightarrow> ('m, 'i) config_dict \<Rightarrow> string list" where
  "changed_slots c c' =
     (if vel c' = vel c then [] else [''vel'']) @
     (if signal c' = signal c then [] else [''signal'']) @
     (if img_rgb c' = img_rgb c then [] else [''img_rgb'']) @
     (if steering c' = steering c then [] else [''steering'']) @
     (if bridge c' = bridge c then [] else [''bridge'']) @
     (if begin_img c' = begin_img c then [] else [''begin_img'']) @
     (if twist_linear_x c' = twist_linear_x c then [] else [''twist_linear_x'']) @
     (if crosswalk c' = crosswalk c then [] else [''crosswalk'']) @
     (if velocity c' = velocity c then [] else [''velocity''])"

text \<open>
  The append rule in the words of the specification: the new text verbatim when the
  field is absent, the old value, \<open>''; ''\<close> and the new text when it is present.
\<close>

definition spec_append :: "string option \<Rightarrow> string \<Rightarrow> string" where
  "spec_append old new = (case old of None \<Rightarrow> new | Some v \<Rightarrow> v @ ''; '' @ new)"

text \<open>
  The steering value of a payload, when the payload is JSON and its \<^verbatim>\<open>steering\<close> entry
  converts to a float; None otherwise.
\<close>

definition decoded_steering :: "'i lib \<Rightarrow> string std_msg \<Rightarrow> real option" where
  "decoded_steering L message =
     (case json_loads L (data message) of
        None \<Rightarrow> None
      | Some d \<Rightarrow>
         (case getitem d ''steering'' of
            Inl e \<Rightarrow> None
          | Inr s \<Rightarrow>
             (case py_float (str_to_float L) s of Inl e \<Rightarrow> None | Inr x \<Rightarrow> Some x)))"

text \<open>The same for the \<^verbatim>\<open>velocity\<close> entry.\<close>

definition decoded_velocity :: "'i lib \<Rightarrow> string std_msg \<Rightarrow> real option" where
  "decoded_velocity L message =
     (case json_loads L (data message) of
        None \<Rightarrow> None
      | Some d \<Rightarrow>
         (case getitem d ''velocity'' of
            Inl e \<Rightarrow> None
          | Inr v \<Rightarrow>
             (case py_float (str_to_float L) v of Inl e \<Rightarrow> None | Inr y \<Rightarrow> Some y)))"

text \<open>
  A malformed steering/velocity payload: it is not JSON, or one of its two entries is
  missing or does not convert to a float.
\<close>

definition malformed :: "'i lib \<Rightarrow> string std_msg \<Rightarrow> bool" where
  "malformed L message =
     (decoded_steering L message = None \<or> decoded_velocity L message = None)"

section \<open>Concrete inputs\<close>

text \<open>
  A bridge that fails on image message 0 and decodes every other one, a library whose
  json decoder knows two payloads, a yaml record with cruise velocity 0.8 and one
  earlier comment, and the state in which the loop starts from them.
\<close>

definition bridge0 :: "nat \<Rightarrow> error + string" where
  "bridge0 m = (if m = 0 then Inl CvBridgeError else Inr ''frame'')"

definition lib0 :: "string lib" where
  \<open>lib0 =
     \<lparr>json_loads = (\<lambda>s.
         if s = ''{"steering": 0.2, "velocity": 0.5}''
         then Some (JObj [(''steering'', JFloat (1 / 5)), (''velocity'', JFloat (1 / 2))])
         else if s = ''{"steering": 1.0}'' then Some (JObj [(''steering'', JFloat 1)])
         else None),
      str_to_float = (\<lambda>s. None),
      py_round = (\<lambda>x n. x),
      py_str = (\<lambda>x. ''p''),
      img_shape = (\<lambda>i. (400, 600, 3)),
      cv2_putText = (\<lambda>i t p. i)\<rparr>\<close>

definition info0 :: info where
  "info0 = \<lparr>dataset = [''linear_velocity'' \<mapsto> 4 / 5],
            model = [''driving_comments'' \<mapsto> ''A'']\<rparr>"

definition st0 :: "(nat, string) loop_state" where
  "st0 = \<lparr>config = init_config bridge0, twist = Twist0, info_loaded = info0,
          linear_velocity = 4 / 5\<rparr>"

text \<open>An iteration in which no key is pressed, and one in which the operator presses q.\<close>

definition no_key :: "nat message list \<Rightarrow> nat env" where
  "no_key ms = \<lparr>is_shutdown = False, inbox = ms, waitKey = - 1, input_comments = None,
                input_eval = None, yaml_dump_ok = True\<rparr>"

definition press_q :: "nat message list \<Rightarrow> nat env" where
  "press_q ms = \<lparr>is_shutdown = False, inbox = ms, waitKey = 113, input_comments = Some ''B'',
                 input_eval = Some ''7'', yaml_dump_ok = True\<rparr>"

text \<open>
  A frame, a steering/velocity pair (0.2, 0.5), crosswalk confidence 0.9 and a signal;
  \<open>st1 sig\<close> is the start state after these four messages.
\<close>

definition drive :: "string \<Rightarrow> nat message list" where
  \<open>drive sig = [ImageMsg 1, ModelMsg \<lparr>data = ''{"steering": 0.2, "velocity": 0.5}''\<rparr>,
                CrosswalkMsg \<lparr>data = 9 / 10\<rparr>, SignalMsg \<lparr>data = sig\<rparr>]\<close>

definition st1 :: "string \<Rightarrow> (nat, string) loop_state" where
  "st1 sig = st0\<lparr>config := deliver lib0 (drive sig) (config st0)\<rparr>"

section \<open>Basic facts\<close>

lemma ord_q: "ord CHR ''q'' = 113"
  by (simp add: ord_def)

lemma startup_st0: "startup bridge0 info0 = Inr st0"
  by (simp add: startup_def info0_def st0_def)

lemma config_st1:
  "config (st1 sig) =
     \<lparr>vel = None, signal = Some sig, img_rgb = Some ''frame'', steering = 1 / 5,
      bridge = bridge0, begin_img = True, twist_linear_x = None, crosswalk = 9 / 10,
      velocity = 1 / 2\<rparr>"
  by (simp add: st1_def st0_def drive_def init_config_def lib0_def bridge0_def
      imgRgbCallback_def modelSteeringVelocityCallback_def crosswalkSurenessCallback_def
      signalCallback_def)

lemma st1_rest:
  "twist (st1 sig) = Twist0" "info_loaded (st1 sig) = info0" "linear_velocity (st1 sig) = 4 / 5"
  by (simp_all add: st1_def st0_def)

subsection \<open>One iteration\<close>

lemma tick_idle: "\<not> begin_img (config st) \<Longrightarrow> tick L e st = ([], st, Continue)"
  by (simp add: tick_def)

lemma tick_active:
  assumes "begin_img (config st)" "img_rgb (config st) = Some img" "waitKey e \<noteq> ord CHR ''q''"
  shows "\<exists>img1. tick L e st =
     ([ImShow img1, WaitKey,
       Publish \<lparr>linear_x = velocity (config st), linear_y = 0, linear_z = 0,
                 angular_x = 0, angular_y = 0, angular_z = steering (config st)\<rparr>,
       RateSleep],
      st\<lparr>config := (config st)\<lparr>img_rgb := Some img1\<rparr>,
         twist := \<lparr>linear_x = velocity (config st), linear_y = 0, linear_z = 0,
                   angular_x = 0, angular_y = 0, angular_z = steering (config st)\<rparr>\<rparr>,
      Continue)"
  using assms by (simp add: tick_def Let_def)

subsection \<open>Callbacks before the first frame\<close>

lemma bridge_dispatch: "bridge (dispatch L m c) = bridge c"
  by (cases m)
    (simp_all add: signalCallback_def crosswalkSurenessCallback_def
      modelSteeringVelocityCallback_def imgRgbCallback_def Let_def
      split: option.splits sum.splits)

lemma begin_img_dispatch:
  "\<not> frame_decodes c m \<Longrightarrow> begin_img (dispatch L m c) = begin_img c"
  by (cases m)
    (simp_all add: signalCallback_def crosswalkSurenessCallback_def
      modelSteeringVelocityCallback_def imgRgbCallback_def Let_def
      split: option.splits sum.splits)

lemma frame_decodes_cong: "bridge c' = bridge c \<Longrightarrow> frame_decodes c' m = frame_decodes c m"
  by (cases m) simp_all

lemma begin_img_deliver:
  "list_all (\<lambda>m. \<not> frame_decodes c m) ms \<Longrightarrow>
   begin_img (deliver L ms c) = begin_img c \<and> bridge (deliver L ms c) = bridge c"
proof (induction ms arbitrary: c)
  case Nil
  then show ?case by simp
next
  case (Cons m ms)
  let ?c = "dispatch L m c"
  have b: "bridge ?c = bridge c" by (rule bridge_dispatch)
  from Cons.prems have "list_all (\<lambda>m. \<not> frame_decodes ?c m) ms"
    by (simp add: frame_decodes_cong [OF b])
  from Cons.IH [OF this] Cons.prems b show ?case
    by (simp add: begin_img_dispatch)
qed

lemma no_frame_yet_cong:
  assumes "bridge c' = bridge c"
  shows "no_frame_yet c' es = no_frame_yet c es"
proof -
  have "frame_decodes c' = frame_decodes c"
    using frame_decodes_cong [OF assms] by (intro ext)
  then show ?thesis
    by (induction es) simp_all
qed

lemma run_idle:
  "\<not> begin_img (config st) \<Longrightarrow> no_frame_yet (config st) es \<Longrightarrow> fst (run L es st) = []"
proof (induction es arbitrary: st)
  case Nil
  then show ?case by simp
next
  case (Cons e es)
  let ?st = "st\<lparr>config := deliver L (inbox e) (config st)\<rparr>"
  from Cons.prems have d: "begin_img (config ?st) = begin_img (config st)"
      "bridge (config ?st) = bridge (config st)"
    using begin_img_deliver [of "config st" "inbox e" L] by simp_all
  with Cons.prems have idle: "tick L e ?st = ([], ?st, Continue)"
    by (simp add: tick_idle)
  have "no_frame_yet (config ?st) es = no_frame_yet (config st) es"
    by (rule no_frame_yet_cong) (rule d(2))
  with Cons.prems d have "fst (run L es ?st) = []"
    by (intro Cons.IH) simp_all
  with idle show ?case
    by (simp split: prod.splits)
qed

lemma dispatch_frame:
  "(begin_img c \<Longrightarrow> img_rgb c \<noteq> None) \<Longrightarrow> begin_img (dispatch L m c) \<Longrightarrow>
   img_rgb (dispatch L m c) \<noteq> None"
  by (cases m)
    (auto simp add: signalCallback_def crosswalkSurenessCallback_def
      modelSteeringVelocityCallback_def imgRgbCallback_def Let_def
      split: option.splits sum.splits)

lemma deliver_frame:
  "(begin_img c \<Longrightarrow> img_rgb c \<noteq> None) \<Longrightarrow> begin_img (deliver L ms c) \<Longrightarrow>
   img_rgb (deliver L ms c) \<noteq> None"
proof (induction ms arbitrary: c)
  case Nil
  then show ?case by simp
next
  case (Cons m ms)
  show ?case
    using Cons.IH [of "dispatch L m c"] Cons.prems dispatch_frame [of c L m]
    by auto
qed

lemma changed_slots_Nil: "changed_slots c c' = [] \<longleftrightarrow> c' = c"
  by (cases c, cases c') (auto simp add: changed_slots_def)

subsection \<open>Conversion to float\<close>

lemma py_float_overflow: "float_int_bound \<le> \<bar>i\<bar> \<Longrightarrow> py_float p (JInt i) = Inl OverflowError"
  by simp

lemma py_float_examples:
  "py_float p (JInt 1) = Inr 1" "py_float p (JInt (10 ^ 309)) = Inl OverflowError"
  by (simp_all add: float_int_bound_def)

lemma callback_overflow:
  assumes "json_loads L (data message) = Some (JObj [(''steering'', JInt i), (''velocity'', v)])"
    and "float_int_bound \<le> \<bar>i\<bar>"
  shows "malformed L message \<and>
         modelSteeringVelocityCallback L message c = (c, Some OverflowError)"
  using assms
  by (simp add: malformed_def decoded_steering_def modelSteeringVelocityCallback_def)

subsection \<open>Iterations with a frame\<close>

lemma tick_no_frame:
  "begin_img (config st) \<Longrightarrow> img_rgb (config st) = None \<Longrightarrow>
   tick L e st = ([], st, Raised AttributeError)"
  by (simp add: tick_def)

lemma tick_side_zero: "list_all side_zero (published (fst (tick L e st)))"
  by (simp add: tick_def abort_branch_def gracefulStop_def Let_def
      split: option.splits prod.splits)

lemma abort_branch_ok:
  assumes "input_comments e = Some comments" and "input_eval e = Some answer"
    and "yaml_dump_ok e"
  shows "abort_branch e tw i0 =
     ([Publish (tw\<lparr>linear_x := 0, angular_z := 0\<rparr>),
       Print ''Stopping the autonomous driving'',
       Input ''[info.yaml] Additional comments about the model: '',
       Input ''[info.yaml] Evaluate the model on a scale from 0 (bad) to 10 (good): '',
       YamlDump (i0\<lparr>model := (model i0)
          (''driving_comments'' \<mapsto> spec_append (model i0 ''driving_comments'') comments,
           ''driving_model_eval'' \<mapsto>
              spec_append (model i0 ''driving_model_eval'') (answer @ ''/10''))\<rparr>),
       Exit 0],
      tw\<lparr>linear_x := 0, angular_z := 0\<rparr>,
      i0\<lparr>model := (model i0)
          (''driving_comments'' \<mapsto> spec_append (model i0 ''driving_comments'') comments,
           ''driving_model_eval'' \<mapsto>
              spec_append (model i0 ''driving_model_eval'') (answer @ ''/10''))\<rparr>,
      Exited 0)"
  using assms
  by (simp add: abort_branch_def gracefulStop_def Let_def spec_append_def
      split: option.splits)

lemma abort_branch_keeps:
  assumes "abort_branch e tw i0 = (evs, tw', i2, s)" and "model i0 k = Some v"
  shows "\<exists>rest. model i2 k = Some (v @ rest)"
  using assms
  by (auto simp add: abort_branch_def gracefulStop_def Let_def
      split: option.splits if_splits)

lemma tick_abort:
  assumes "begin_img (config st)" and "img_rgb (config st) = Some img"
    and "waitKey e = ord CHR ''q''"
    and "input_comments e = Some comments" and "input_eval e = Some answer"
    and "yaml_dump_ok e"
  shows "\<exists>img1. tick L e st =
     ([ImShow img1, WaitKey, Publish Twist0,
       Print ''Stopping the autonomous driving'',
       Input ''[info.yaml] Additional comments about the model: '',
       Input ''[info.yaml] Evaluate the model on a scale from 0 (bad) to 10 (good): '',
       YamlDump ((info_loaded st)\<lparr>model := (model (info_loaded st))
          (''driving_comments'' \<mapsto>
              spec_append (model (info_loaded st) ''driving_comments'') comments,
           ''driving_model_eval'' \<mapsto>
              spec_append (model (info_loaded st) ''driving_model_eval'') (answer @ ''/10''))\<rparr>),
       Exit 0],
      st\<lparr>config := (config st)\<lparr>img_rgb := Some img1\<rparr>, twist := Twist0,
         info_loaded := (info_loaded st)\<lparr>model := (model (info_loaded st))
          (''driving_comments'' \<mapsto>
              spec_append (model (info_loaded st) ''driving_comments'') comments,
           ''driving_model_eval'' \<mapsto>
              spec_append (model (info_loaded st) ''driving_model_eval'') (answer @ ''/10''))\<rparr>\<rparr>,
      Exited 0)"
  using assms(1,2,3)
  by (simp add: tick_def Let_def abort_branch_ok [OF assms(4,5,6)] Twist0_def)

subsection \<open>Runs\<close>

lemma run_step:
  assumes "\<not> is_shutdown e"
    and "tick L e (st\<lparr>config := deliver L (inbox e) (config st)\<rparr>) = (evs, st2, Continue)"
  shows "run L (e # es) st =
           (evs @ fst (run L es st2), fst (snd (run L es st2)), snd (snd (run L es st2)))"
  using assms by (simp split: prod.splits)

lemma run_halt:
  assumes "\<not> is_shutdown e"
    and "tick L e (st\<lparr>config := deliver L (inbox e) (config st)\<rparr>) = (evs, st2, s)"
    and "s \<noteq> Continue"
  shows "run L (e # es) st = (evs, st2, s)"
  using assms by (cases s) simp_all

lemma deliver_drive: "deliver lib0 (drive sig) (config st0) = config (st1 sig)"
  by (simp add: st1_def)

text \<open>
  From the start state: the four messages of \<open>drive\<close> arrive, then two iterations
  without a key.
\<close>

lemma run_st0_drive_twice:
  "fst (run lib0 [no_key (drive sig), no_key []] st0) =
     [ImShow ''frame'', WaitKey,
      Publish \<lparr>linear_x = 1 / 2, linear_y = 0, linear_z = 0,
                angular_x = 0, angular_y = 0, angular_z = 1 / 5\<rparr>, RateSleep,
      ImShow ''frame'', WaitKey,
      Publish \<lparr>linear_x = 1 / 2, linear_y = 0, linear_z = 0,
                angular_x = 0, angular_y = 0, angular_z = 1 / 5\<rparr>, RateSleep] \<and>
   snd (snd (run lib0 [no_key (drive sig), no_key []] st0)) = Continue"
proof -
  let ?tw = "\<lparr>linear_x = 1 / 2, linear_y = 0, linear_z = 0,
                angular_x = 0, angular_y = 0, angular_z = 1 / 5 :: real\<rparr>"
  let ?evs = "[ImShow ''frame'', WaitKey, Publish ?tw, RateSleep]"
  have a: "st0\<lparr>config := deliver lib0 (drive sig) (config st0)\<rparr> = st1 sig"
    by (simp add: st1_def)
  have t1: "tick lib0 (no_key (drive sig)) (st1 sig) = (?evs, (st1 sig)\<lparr>twist := ?tw\<rparr>, Continue)"
    by (simp add: tick_def config_st1 st1_rest no_key_def ord_q Let_def cv2PutText_def
        lib0_def Twist0_def)
  have t2: "tick lib0 (no_key []) ((st1 sig)\<lparr>twist := ?tw\<rparr>) =
              (?evs, (st1 sig)\<lparr>twist := ?tw\<rparr>, Continue)"
    by (simp add: tick_def config_st1 st1_rest no_key_def ord_q Let_def cv2PutText_def
        lib0_def Twist0_def)
  have r1: "run lib0 (no_key (drive sig) # [no_key []]) st0 =
      (?evs @ fst (run lib0 [no_key []] ((st1 sig)\<lparr>twist := ?tw\<rparr>)),
       fst (snd (run lib0 [no_key []] ((st1 sig)\<lparr>twist := ?tw\<rparr>))),
       snd (snd (run lib0 [no_key []] ((st1 sig)\<lparr>twist := ?tw\<rparr>))))"
    by (rule run_step) (simp_all add: no_key_def a t1 [unfolded no_key_def])
  have r2: "run lib0 (no_key [] # []) ((st1 sig)\<lparr>twist := ?tw\<rparr>) =
      (?evs @ fst (run lib0 [] ((st1 sig)\<lparr>twist := ?tw\<rparr>)),
       fst (snd (run lib0 [] ((st1 sig)\<lparr>twist := ?tw\<rparr>))),
       snd (snd (run lib0 [] ((st1 sig)\<lparr>twist := ?tw\<rparr>))))"
    by (rule run_step) (simp_all add: no_key_def t2 [unfolded no_key_def])
  show ?thesis
    unfolding r1 r2 by simp
qed

lemma run_st0_drive:
  "run lib0 [no_key (drive sig)] st0 =
     ([ImShow ''frame'', WaitKey,
       Publish \<lparr>linear_x = 1 / 2, linear_y = 0, linear_z = 0,
                 angular_x = 0, angular_y = 0, angular_z = 1 / 5\<rparr>, RateSleep],
      (st1 sig)\<lparr>twist := \<lparr>linear_x = 1 / 2, linear_y = 0, linear_z = 0,
                 angular_x = 0, angular_y = 0, angular_z = 1 / 5\<rparr>\<rparr>, Continue)"
proof -
  have a: "st0\<lparr>config := deliver lib0 (drive sig) (config st0)\<rparr> = st1 sig"
    by (simp add: st1_def)
  have "tick lib0 (no_key (drive sig)) (st1 sig) =
     ([ImShow ''frame'', WaitKey,
       Publish \<lparr>linear_x = 1 / 2, linear_y = 0, linear_z = 0,
                 angular_x = 0, angular_y = 0, angular_z = 1 / 5\<rparr>, RateSleep],
      (st1 sig)\<lparr>twist := \<lparr>linear_x = 1 / 2, linear_y = 0, linear_z = 0,
                 angular_x = 0, angular_y = 0, angular_z = 1 / 5\<rparr>\<rparr>, Continue)"
    by (simp add: tick_def config_st1 st1_rest no_key_def ord_q Let_def cv2PutText_def
        lib0_def Twist0_def)
  then show ?thesis
    by (simp add: a no_key_def)
qed

section \<open>The claims\<close>

subsection \<open>The policy rules of lines 152 to 165\<close>

text \<open>
  C1, as stated, fails. From the start state a frame, the pair (steering 0.2, velocity
  0.5), crosswalk confidence 0.9 (above the threshold 0.85) and the signal
  \<^verbatim>\<open>StopPermitted\<close> arrive. The next iteration shows the frame, polls the key, publishes
  the command with velocity 0.5 and goes to the rate sleep: it does not block and the
  velocity it publishes is not 0.
\<close>

theorem stop_rule_counterexample:
  "startup bridge0 info0 = Inr st0 \<and>
   signal (config (st1 ''StopPermitted'')) = Some ''StopPermitted'' \<and>
   crosswalk_threshold < crosswalk (config (st1 ''StopPermitted'')) \<and>
   fst (run lib0 [no_key (drive ''StopPermitted'')] st0) =
     [ImShow ''frame'', WaitKey,
      Publish \<lparr>linear_x = 1 / 2, linear_y = 0, linear_z = 0,
                angular_x = 0, angular_y = 0, angular_z = 1 / 5\<rparr>, RateSleep] \<and>
   map linear_x (published (fst (run lib0 [no_key (drive ''StopPermitted'')] st0))) \<noteq> [0]"
  by (simp add: startup_st0 run_st0_drive config_st1 crosswalk_threshold_def del: run.simps)

text \<open>
  C1, amended. In an iteration with a frame present and without the abort key, where
  the signal is \<^verbatim>\<open>StopPermitted\<close> and the crosswalk confidence is above the threshold,
  the loop shows the frame, polls the key, publishes one command that carries the
  velocity and the steering of the shared dict, and goes to the rate sleep: nothing
  else happens, in particular no wait and no change of the velocity.
\<close>

theorem stop_signal_passes_through:
  assumes "begin_img (config st)" and "img_rgb (config st) = Some img"
    and "signal (config st) = Some ''StopPermitted''"
    and "crosswalk_threshold < crosswalk (config st)"
    and "waitKey e \<noteq> ord CHR ''q''"
  shows "\<exists>img1. fst (tick L e st) =
           [ImShow img1, WaitKey,
            Publish \<lparr>linear_x = velocity (config st), linear_y = 0, linear_z = 0,
                      angular_x = 0, angular_y = 0, angular_z = steering (config st)\<rparr>,
            RateSleep]"
  using tick_active [OF assms(1,2,5), of L] by auto

theorem stop_signal_passes_through_witness:
  "begin_img (config (st1 ''StopPermitted'')) \<and>
   img_rgb (config (st1 ''StopPermitted'')) = Some ''frame'' \<and>
   signal (config (st1 ''StopPermitted'')) = Some ''StopPermitted'' \<and>
   crosswalk_threshold < crosswalk (config (st1 ''StopPermitted'')) \<and>
   waitKey (no_key []) \<noteq> ord CHR ''q'' \<and>
   (\<exists>img1. fst (tick lib0 (no_key []) (st1 ''StopPermitted'')) =
      [ImShow img1, WaitKey,
       Publish \<lparr>linear_x = 1 / 2, linear_y = 0, linear_z = 0,
                 angular_x = 0, angular_y = 0, angular_z = 1 / 5\<rparr>,
       RateSleep])"
  using stop_signal_passes_through [of "st1 ''StopPermitted''" "''frame''" "no_key []" lib0]
  by (simp add: config_st1 no_key_def ord_q crosswalk_threshold_def)




text \<open>
  C3, as stated, fails. The yaml record gives the cruise velocity 0.8, the model reports
  velocity 0.5, the signal is \<^verbatim>\<open>ForwardPermitted\<close>. Two iterations publish velocity 0.5
  both times: the velocity applied last (0.5) differs from the cruise velocity, and the
  velocity published next is 0.5 again, not 0.8.
\<close>

theorem cruise_rule_counterexample:
  "dataset info0 ''linear_velocity'' = Some (4 / 5) \<and>
   startup bridge0 info0 = Inr st0 \<and> linear_velocity st0 = 4 / 5 \<and>
   signal (config (st1 ''ForwardPermitted'')) = Some ''ForwardPermitted'' \<and>
   map linear_x (published (fst (run lib0 [no_key (drive ''ForwardPermitted''), no_key []] st0)))
     = [1 / 2, 1 / 2] \<and>
   (1 / 2 :: real) \<noteq> 4 / 5"
proof -
  have "dataset info0 ''linear_velocity'' = Some (4 / 5)"
    by (simp add: info0_def)
  moreover have "linear_velocity st0 = 4 / 5"
    by (simp add: st0_def)
  ultimately show ?thesis
    by (simp add: run_st0_drive_twice config_st1 startup_st0 del: run.simps)
qed

text \<open>
  C3, amended. In an iteration with a frame present and without the abort key, where
  the signal is \<^verbatim>\<open>ForwardPermitted\<close>, the velocity published is the velocity of the shared
  dict (the one the model reported last), whatever \<^verbatim>\<open>linear_velocity\<close> is.
\<close>

theorem forward_signal_passes_through:
  assumes "begin_img (config st)" and "img_rgb (config st) = Some img"
    and "signal (config st) = Some ''ForwardPermitted''"
    and "waitKey e \<noteq> ord CHR ''q''"
  shows "map linear_x (published (fst (tick L e st))) = [velocity (config st)]"
  using tick_active [OF assms(1,2,4), of L] by auto

theorem forward_signal_passes_through_witness:
  "begin_img (config (st1 ''ForwardPermitted'')) \<and>
   img_rgb (config (st1 ''ForwardPermitted'')) = Some ''frame'' \<and>
   signal (config (st1 ''ForwardPermitted'')) = Some ''ForwardPermitted'' \<and>
   waitKey (no_key []) \<noteq> ord CHR ''q'' \<and>
   linear_velocity (st1 ''ForwardPermitted'') = 4 / 5 \<and>
   map linear_x (published (fst (tick lib0 (no_key []) (st1 ''ForwardPermitted'')))) = [1 / 2]"
  using forward_signal_passes_through
    [of "st1 ''ForwardPermitted''" "''frame''" "no_key []" lib0]
  by (simp add: config_st1 st1_rest no_key_def ord_q)

subsection \<open>The loop\<close>

text \<open>
  C4. While no camera frame has been decoded (\<^verbatim>\<open>begin_img\<close> is False), an iteration of
  the loop does nothing at all: no event, the state unchanged, the loop goes on. So a
  run in which no image message decodes publishes no command and shows no image.
\<close>

theorem idle_gating:
  assumes "\<not> begin_img (config st)" and "no_frame_yet (config st) es"
  shows "tick L e st = ([], st, Continue) \<and> fst (run L es st) = [] \<and>
         published (fst (run L es st)) = [] \<and> displayed (fst (run L es st)) = []"
  using assms by (simp add: tick_idle run_idle)

theorem idle_gating_witness:
  "\<not> begin_img (config st0) \<and>
   no_frame_yet (config st0)
     [no_key [SignalMsg \<lparr>data = ''StopPermitted''\<rparr>, ImageMsg 0], no_key []] \<and>
   tick lib0 (no_key []) st0 = ([], st0, Continue) \<and>
   fst (run lib0 [no_key [SignalMsg \<lparr>data = ''StopPermitted''\<rparr>, ImageMsg 0], no_key []] st0)
     = []"
  using idle_gating [of st0
      "[no_key [SignalMsg \<lparr>data = ''StopPermitted''\<rparr>, ImageMsg 0], no_key []]" lib0 "no_key []"]
  by (simp add: st0_def init_config_def no_key_def bridge0_def)

text \<open>
  C5. An iteration with a frame present and without the abort key publishes exactly one
  command: linear = (velocity of the dict, 0, 0), angular = (0, 0, steering of the
  dict). This holds whatever the signal and the crosswalk confidence are, so in
  particular when no policy rule of the specification matches. In every iteration, of
  whatever kind, the four other components of each published command are 0.
\<close>

theorem pass_through:
  assumes "begin_img (config st)" and "img_rgb (config st) = Some img"
    and "waitKey e \<noteq> ord CHR ''q''"
  shows "published (fst (tick L e st)) =
           [\<lparr>linear_x = velocity (config st), linear_y = 0, linear_z = 0,
             angular_x = 0, angular_y = 0, angular_z = steering (config st)\<rparr>] \<and>
         list_all side_zero (published (fst (tick L e' st')))"
  using tick_active [OF assms, of L] tick_side_zero [of L e' st'] by auto

theorem pass_through_witness:
  "begin_img (config (st1 ''none'')) \<and> img_rgb (config (st1 ''none'')) = Some ''frame'' \<and>
   waitKey (no_key []) \<noteq> ord CHR ''q'' \<and>
   published (fst (tick lib0 (no_key []) (st1 ''none''))) =
     [\<lparr>linear_x = 1 / 2, linear_y = 0, linear_z = 0,
       angular_x = 0, angular_y = 0, angular_z = 1 / 5\<rparr>] \<and>
   list_all side_zero (published (fst (tick lib0 (press_q []) (st1 ''none''))))"
  using pass_through [of "st1 ''none''" "''frame''" "no_key []" lib0 "press_q []" "st1 ''none''"]
  by (simp add: config_st1 no_key_def ord_q)

text \<open>
  C6. When the operator presses q in an iteration with a frame present, answers both
  prompts and the yaml file can be written, the run consists of exactly these events,
  in this order: the frame shown, the key polled, one command with all six components
  0, the stop message, the prompt for comments, the prompt for the rating, the dump of
  the record, exit with status 0. The dumped record holds the comments and the rating
  appended by the append rule. Whatever iterations would follow do not take place: the
  run publishes that one command and no other.
\<close>

theorem abort_sequence:
  assumes "\<not> is_shutdown e"
    and "begin_img (deliver L (inbox e) (config st))"
    and "img_rgb (deliver L (inbox e) (config st)) = Some img"
    and "waitKey e = ord CHR ''q''"
    and "input_comments e = Some comments" and "input_eval e = Some answer"
    and "yaml_dump_ok e"
  shows "\<exists>img1 st'.
     run L (e # es) st =
       ([ImShow img1, WaitKey, Publish Twist0,
         Print ''Stopping the autonomous driving'',
         Input ''[info.yaml] Additional comments about the model: '',
         Input ''[info.yaml] Evaluate the model on a scale from 0 (bad) to 10 (good): '',
         YamlDump (info_loaded st'), Exit 0],
        st', Exited 0) \<and>
     model (info_loaded st') ''driving_comments'' =
       Some (spec_append (model (info_loaded st) ''driving_comments'') comments) \<and>
     model (info_loaded st') ''driving_model_eval'' =
       Some (spec_append (model (info_loaded st) ''driving_model_eval'') (answer @ ''/10'')) \<and>
     published (fst (run L (e # es) st)) = [Twist0]"
proof -
  let ?st = "st\<lparr>config := deliver L (inbox e) (config st)\<rparr>"
  have "begin_img (config ?st)" and "img_rgb (config ?st) = Some img"
    using assms(2,3) by simp_all
  from tick_abort [OF this assms(4,5,6,7), of L] obtain img1 where
    t: "tick L e ?st =
     ([ImShow img1, WaitKey, Publish Twist0,
       Print ''Stopping the autonomous driving'',
       Input ''[info.yaml] Additional comments about the model: '',
       Input ''[info.yaml] Evaluate the model on a scale from 0 (bad) to 10 (good): '',
       YamlDump ((info_loaded ?st)\<lparr>model := (model (info_loaded ?st))
          (''driving_comments'' \<mapsto>
              spec_append (model (info_loaded ?st) ''driving_comments'') comments,
           ''driving_model_eval'' \<mapsto>
              spec_append (model (info_loaded ?st) ''driving_model_eval'') (answer @ ''/10''))\<rparr>),
       Exit 0],
      ?st\<lparr>config := (config ?st)\<lparr>img_rgb := Some img1\<rparr>, twist := Twist0,
         info_loaded := (info_loaded ?st)\<lparr>model := (model (info_loaded ?st))
          (''driving_comments'' \<mapsto>
              spec_append (model (info_loaded ?st) ''driving_comments'') comments,
           ''driving_model_eval'' \<mapsto>
              spec_append (model (info_loaded ?st) ''driving_model_eval'') (answer @ ''/10''))\<rparr>\<rparr>,
      Exited 0)"
    by blast
  have "Exited 0 \<noteq> Continue" by simp
  note h = run_halt [OF assms(1) t this, of es]
  define st' where "st' = ?st\<lparr>config := (config ?st)\<lparr>img_rgb := Some img1\<rparr>, twist := Twist0,
         info_loaded := (info_loaded ?st)\<lparr>model := (model (info_loaded ?st))
          (''driving_comments'' \<mapsto>
              spec_append (model (info_loaded ?st) ''driving_comments'') comments,
           ''driving_model_eval'' \<mapsto>
              spec_append (model (info_loaded ?st) ''driving_model_eval'') (answer @ ''/10''))\<rparr>\<rparr>"
  show ?thesis
    unfolding h by (intro exI [of _ img1] exI [of _ st']) (simp add: st'_def)
qed

theorem abort_sequence_witness:
  "\<not> is_shutdown (press_q (drive ''x'')) \<and>
   begin_img (deliver lib0 (inbox (press_q (drive ''x''))) (config st0)) \<and>
   img_rgb (deliver lib0 (inbox (press_q (drive ''x''))) (config st0)) = Some ''frame'' \<and>
   waitKey (press_q (drive ''x'')) = ord CHR ''q'' \<and>
   input_comments (press_q (drive ''x'')) = Some ''B'' \<and>
   input_eval (press_q (drive ''x'')) = Some ''7'' \<and>
   yaml_dump_ok (press_q (drive ''x'')) \<and>
   (\<exists>img1 st'.
     run lib0 [press_q (drive ''x''), no_key []] st0 =
       ([ImShow img1, WaitKey, Publish Twist0,
         Print ''Stopping the autonomous driving'',
         Input ''[info.yaml] Additional comments about the model: '',
         Input ''[info.yaml] Evaluate the model on a scale from 0 (bad) to 10 (good): '',
         YamlDump (info_loaded st'), Exit 0],
        st', Exited 0) \<and>
     model (info_loaded st') ''driving_comments'' = Some ''A; B'' \<and>
     model (info_loaded st') ''driving_model_eval'' = Some ''7/10'' \<and>
     published (fst (run lib0 [press_q (drive ''x''), no_key []] st0)) = [Twist0])"
proof -
  have i: "info_loaded st0 = info0" by (simp add: st0_def)
  have m: "model info0 ''driving_comments'' = Some ''A''"
    "model info0 ''driving_model_eval'' = None"
    by (simp_all add: info0_def)
  have e: "inbox (press_q (drive ''x'')) = drive ''x''" "\<not> is_shutdown (press_q (drive ''x''))"
    "waitKey (press_q (drive ''x'')) = ord CHR ''q''"
    "input_comments (press_q (drive ''x'')) = Some ''B''"
    "input_eval (press_q (drive ''x'')) = Some ''7''"
    "yaml_dump_ok (press_q (drive ''x''))"
    by (simp_all add: press_q_def ord_q)
  show ?thesis
    using abort_sequence [of "press_q (drive ''x'')" lib0 st0 "''frame''" "''B''" "''7''"
        "[no_key []]"]
    by (simp add: e deliver_drive config_st1 i m spec_append_def del: run.simps)
qed

subsection \<open>The callbacks\<close>

text \<open>
  C7, as stated, fails. The payload \<^verbatim>\<open>{"steering": 1.0}\<close> has no velocity entry. The
  callback has assigned steering (0 before, 1 after) when the read of the velocity
  entry raises KeyError, and that exception leaves the callback.
\<close>

theorem decode_partial_update_counterexample:
  \<open>steering (init_config bridge0) = 0 \<and>
   modelSteeringVelocityCallback lib0 \<lparr>data = ''{"steering": 1.0}''\<rparr> (init_config bridge0) =
     ((init_config bridge0)\<lparr>steering := 1\<rparr>, Some (KeyError ''velocity'')) \<and>
   steering ((init_config bridge0)\<lparr>steering := 1\<rparr>) \<noteq> steering (init_config bridge0)\<close>
  by (simp add: modelSteeringVelocityCallback_def lib0_def init_config_def)

text \<open>
  C7, amended. The steering/velocity callback ends with an exception exactly when the
  payload is malformed (not JSON, or an entry missing or not convertible), and it does
  not catch that exception: it is the callback's result. On a malformed payload
  velocity keeps its value and no slot other than steering changes. Steering keeps its
  value too when the payload is not JSON or its steering entry is missing or does not
  convert; when the steering entry converts and the velocity entry is the bad one,
  steering has the decoded value. A payload that is not JSON leaves the whole dict as
  it was and raises JSONDecodeError.
\<close>

theorem decode_failure:
  "(snd (modelSteeringVelocityCallback L message c) \<noteq> None \<longleftrightarrow> malformed L message) \<and>
   (malformed L message \<longrightarrow>
      fst (modelSteeringVelocityCallback L message c) =
        (case decoded_steering L message of None \<Rightarrow> c | Some x \<Rightarrow> c\<lparr>steering := x\<rparr>) \<and>
      velocity (fst (modelSteeringVelocityCallback L message c)) = velocity c \<and>
      set (changed_slots c (fst (modelSteeringVelocityCallback L message c))) \<subseteq> {''steering''}) \<and>
   (json_loads L (data message) = None \<longrightarrow>
      modelSteeringVelocityCallback L message c = (c, Some JSONDecodeError))"
proof -
  have raises: "snd (modelSteeringVelocityCallback L message c) \<noteq> None \<longleftrightarrow> malformed L message"
    by (simp add: modelSteeringVelocityCallback_def malformed_def decoded_steering_def
        decoded_velocity_def Let_def split: option.splits sum.splits)
  have keeps: "fst (modelSteeringVelocityCallback L message c) =
        (case decoded_steering L message of None \<Rightarrow> c | Some x \<Rightarrow> c\<lparr>steering := x\<rparr>)"
    if "malformed L message"
    using that
    by (simp add: modelSteeringVelocityCallback_def malformed_def decoded_steering_def
        decoded_velocity_def Let_def split: option.splits sum.splits)
  have vel: "velocity (fst (modelSteeringVelocityCallback L message c)) = velocity c"
    if "malformed L message"
    using keeps [OF that] by (simp split: option.splits)
  have slots: "set (changed_slots c (fst (modelSteeringVelocityCallback L message c)))
      \<subseteq> {''steering''}"
    if "malformed L message"
    using keeps [OF that] by (simp add: changed_slots_def split: option.splits)
  have nojson: "modelSteeringVelocityCallback L message c = (c, Some JSONDecodeError)"
    if "json_loads L (data message) = None"
    using that by (simp add: modelSteeringVelocityCallback_def)
  from raises keeps vel slots nojson show ?thesis by blast
qed

theorem decode_failure_witness:
  \<open>malformed lib0 \<lparr>data = ''garbage''\<rparr> \<and>
   modelSteeringVelocityCallback lib0 \<lparr>data = ''garbage''\<rparr> (config (st1 ''x'')) =
     (config (st1 ''x''), Some JSONDecodeError) \<and>
   malformed lib0 \<lparr>data = ''{"steering": 1.0}''\<rparr> \<and>
   snd (modelSteeringVelocityCallback lib0 \<lparr>data = ''{"steering": 1.0}''\<rparr> (config (st1 ''x'')))
     \<noteq> None \<and>
   fst (modelSteeringVelocityCallback lib0 \<lparr>data = ''{"steering": 1.0}''\<rparr> (config (st1 ''x'')))
     = (config (st1 ''x''))\<lparr>steering := 1\<rparr> \<and>
   velocity (fst (modelSteeringVelocityCallback lib0 \<lparr>data = ''{"steering": 1.0}''\<rparr>
      (config (st1 ''x'')))) = 1 / 2 \<and>
   \<not> malformed lib0 \<lparr>data = ''{"steering": 0.2, "velocity": 0.5}''\<rparr> \<and>
   snd (modelSteeringVelocityCallback lib0 \<lparr>data = ''{"steering": 0.2, "velocity": 0.5}''\<rparr>
      (config (st1 ''x''))) = None\<close>
proof -
  have g: "json_loads lib0 (data \<lparr>data = ''garbage''\<rparr>) = None"
    by (simp add: lib0_def)
  have m1: "malformed lib0 \<lparr>data = ''garbage''\<rparr>"
    by (simp add: malformed_def decoded_steering_def lib0_def)
  have m2: \<open>malformed lib0 \<lparr>data = ''{"steering": 1.0}''\<rparr>\<close>
    by (simp add: malformed_def decoded_velocity_def lib0_def)
  have d2: \<open>decoded_steering lib0 \<lparr>data = ''{"steering": 1.0}''\<rparr> = Some 1\<close>
    by (simp add: decoded_steering_def lib0_def)
  have m3: \<open>\<not> malformed lib0 \<lparr>data = ''{"steering": 0.2, "velocity": 0.5}''\<rparr>\<close>
    by (simp add: malformed_def decoded_steering_def decoded_velocity_def lib0_def)
  have v: "velocity (config (st1 ''x'')) = 1 / 2"
    by (simp add: config_st1)
  show ?thesis
    using decode_failure [of lib0 "\<lparr>data = ''garbage''\<rparr>" "config (st1 ''x'')"]
      decode_failure [of lib0 \<open>\<lparr>data = ''{"steering": 1.0}''\<rparr>\<close> "config (st1 ''x'')"]
      decode_failure [of lib0 \<open>\<lparr>data = ''{"steering": 0.2, "velocity": 0.5}''\<rparr>\<close>
        "config (st1 ''x'')"]
      g m1 m2 d2 m3 v
    by simp
qed

text \<open>
  C8. In the abort branch, once the operator has answered both prompts, the record
  holds under \<^verbatim>\<open>driving_comments\<close> the comments appended by the append rule (verbatim
  when the field was absent, old value, \<open>''; ''\<close>, new text when it was present) and
  under \<^verbatim>\<open>driving_model_eval\<close> the answer followed by \<^verbatim>\<open>/10\<close>, appended by the same rule.
  Every field of the \<^verbatim>\<open>model\<close> sub-dict that had a value still starts with that value,
  the other fields and the \<^verbatim>\<open>dataset\<close> sub-dict are unchanged, and when the file can be
  written this record is the one dumped, just before the exit.
\<close>

theorem metadata_append:
  assumes "input_comments e = Some comments" and "input_eval e = Some answer"
    and "abort_branch e tw i0 = (evs, tw', i2, s)"
  shows "model i2 ''driving_comments'' =
           Some (spec_append (model i0 ''driving_comments'') comments) \<and>
         model i2 ''driving_model_eval'' =
           Some (spec_append (model i0 ''driving_model_eval'') (answer @ ''/10'')) \<and>
         (\<forall>k v. model i0 k = Some v \<longrightarrow> (\<exists>rest. model i2 k = Some (v @ rest))) \<and>
         (\<forall>k. k \<noteq> ''driving_comments'' \<longrightarrow> k \<noteq> ''driving_model_eval'' \<longrightarrow>
              model i2 k = model i0 k) \<and>
         dataset i2 = dataset i0 \<and>
         (yaml_dump_ok e \<longrightarrow> (\<exists>pre. evs = pre @ [YamlDump i2, Exit 0]))"
proof -
  have keeps: "\<forall>k v. model i0 k = Some v \<longrightarrow> (\<exists>rest. model i2 k = Some (v @ rest))"
    using abort_branch_keeps [OF assms(3)] by blast
  have rest: "model i2 ''driving_comments'' =
           Some (spec_append (model i0 ''driving_comments'') comments) \<and>
         model i2 ''driving_model_eval'' =
           Some (spec_append (model i0 ''driving_model_eval'') (answer @ ''/10'')) \<and>
         (\<forall>k. k \<noteq> ''driving_comments'' \<longrightarrow> k \<noteq> ''driving_model_eval'' \<longrightarrow>
              model i2 k = model i0 k) \<and>
         dataset i2 = dataset i0 \<and>
         (yaml_dump_ok e \<longrightarrow> (\<exists>pre. evs = pre @ [YamlDump i2, Exit 0]))"
    using assms
    by (auto simp add: abort_branch_def gracefulStop_def Let_def spec_append_def
        split: option.splits if_splits)
  from keeps rest show ?thesis by blast
qed

theorem metadata_append_witness:
  "input_comments (press_q []) = Some ''B'' \<and> input_eval (press_q []) = Some ''7'' \<and>
   (\<exists>evs tw' s.
      abort_branch (press_q []) Twist0 info0 =
        (evs :: string event list, tw', info0\<lparr>model :=
           [''driving_comments'' \<mapsto> ''A; B'', ''driving_model_eval'' \<mapsto> ''7/10'']\<rparr>, s))"
proof -
  have m: "model info0 ''driving_comments'' = Some ''A''"
    "model info0 ''driving_model_eval'' = None"
    by (simp_all add: info0_def)
  have e: "input_comments (press_q []) = Some ''B''" "input_eval (press_q []) = Some ''7''"
    by (simp_all add: press_q_def)
  obtain evs :: "string event list" and tw' i2 s
    where a: "abort_branch (press_q []) Twist0 info0 = (evs, tw', i2, s)"
    by (metis prod.exhaust)
  from metadata_append [OF e a]
  have c: "model i2 ''driving_comments'' = Some ''A; B''"
    and r: "model i2 ''driving_model_eval'' = Some ''7/10''"
    and k: "\<forall>k. k \<noteq> ''driving_comments'' \<longrightarrow> k \<noteq> ''driving_model_eval'' \<longrightarrow>
              model i2 k = model info0 k"
    and d: "dataset i2 = dataset info0"
    by (simp_all add: m spec_append_def)
  have "model i2 = [''driving_comments'' \<mapsto> ''A; B'', ''driving_model_eval'' \<mapsto> ''7/10'']"
  proof
    fix x show "model i2 x =
      [''driving_comments'' \<mapsto> ''A; B'', ''driving_model_eval'' \<mapsto> ''7/10''] x"
      using c r k by (simp add: info0_def)
  qed
  with d have "i2 = info0\<lparr>model :=
           [''driving_comments'' \<mapsto> ''A; B'', ''driving_model_eval'' \<mapsto> ''7/10'']\<rparr>"
    by (cases i2) (simp add: info0_def)
  with a e show ?thesis by simp
qed

text \<open>
  C9, as stated, fails. On the start dict the camera-frame callback changes two slots,
  \<^verbatim>\<open>img_rgb\<close> and \<^verbatim>\<open>begin_img\<close>, and the steering/velocity callback changes two slots,
  \<^verbatim>\<open>steering\<close> and \<^verbatim>\<open>velocity\<close>.
\<close>

theorem handler_slots_counterexample:
  \<open>changed_slots (init_config bridge0) (fst (imgRgbCallback 1 (init_config bridge0))) =
     [''img_rgb'', ''begin_img''] \<and>
   changed_slots (init_config bridge0)
     (fst (modelSteeringVelocityCallback lib0 \<lparr>data = ''{"steering": 0.2, "velocity": 0.5}''\<rparr>
        (init_config bridge0))) = [''steering'', ''velocity'']\<close>
  by (simp add: changed_slots_def imgRgbCallback_def modelSteeringVelocityCallback_def
      lib0_def init_config_def bridge0_def)

text \<open>
  C9, amended. The signal callback changes no slot but \<^verbatim>\<open>signal\<close>, the crosswalk
  callback no slot but \<^verbatim>\<open>crosswalk\<close>, the steering/velocity callback no slot but
  \<^verbatim>\<open>steering\<close> and \<^verbatim>\<open>velocity\<close>, the camera-frame callback no slot but \<^verbatim>\<open>img_rgb\<close> and
  \<^verbatim>\<open>begin_img\<close>. A callback does nothing besides: its result is the dict and, for the
  two callbacks that decode, the exception it may end with.
\<close>

theorem handler_frame:
  "set (changed_slots c (signalCallback sm c)) \<subseteq> {''signal''} \<and>
   set (changed_slots c (crosswalkSurenessCallback cm c)) \<subseteq> {''crosswalk''} \<and>
   set (changed_slots c (fst (modelSteeringVelocityCallback L mm c)))
     \<subseteq> {''steering'', ''velocity''} \<and>
   set (changed_slots c (fst (imgRgbCallback im c))) \<subseteq> {''img_rgb'', ''begin_img''}"
proof -
  have "set (changed_slots c (signalCallback sm c)) \<subseteq> {''signal''}"
    by (simp add: changed_slots_def signalCallback_def)
  moreover have "set (changed_slots c (crosswalkSurenessCallback cm c)) \<subseteq> {''crosswalk''}"
    by (simp add: changed_slots_def crosswalkSurenessCallback_def)
  moreover have "set (changed_slots c (fst (modelSteeringVelocityCallback L mm c)))
     \<subseteq> {''steering'', ''velocity''}"
    by (simp add: changed_slots_def modelSteeringVelocityCallback_def Let_def
        split: option.splits sum.splits)
  moreover have "set (changed_slots c (fst (imgRgbCallback im c)))
     \<subseteq> {''img_rgb'', ''begin_img''}"
    by (simp add: changed_slots_def imgRgbCallback_def split: sum.splits)
  ultimately show ?thesis by blast
qed

theorem handler_frame_witness:
  "changed_slots (config (st1 ''x'')) (signalCallback \<lparr>data = ''y''\<rparr> (config (st1 ''x'')))
     = [''signal''] \<and>
   changed_slots (config (st1 ''x'')) (crosswalkSurenessCallback \<lparr>data = 0\<rparr> (config (st1 ''x'')))
     = [''crosswalk''] \<and>
   set (changed_slots (config (st1 ''x''))
      (fst (modelSteeringVelocityCallback lib0 \<lparr>data = ''garbage''\<rparr> (config (st1 ''x'')))))
     \<subseteq> {''steering'', ''velocity''} \<and>
   set (changed_slots (config (st1 ''x'')) (fst (imgRgbCallback 0 (config (st1 ''x'')))))
     \<subseteq> {''img_rgb'', ''begin_img''}"
  using handler_frame [of "config (st1 ''x'')" "\<lparr>data = ''y''\<rparr>" "\<lparr>data = 0\<rparr>" lib0
      "\<lparr>data = ''garbage''\<rparr>" 0]
  by (simp add: config_st1 changed_slots_def signalCallback_def crosswalkSurenessCallback_def)

subsection \<open>Perception and actuation\<close>

text \<open>
  C10. Two states in which a frame has arrived and which agree on velocity and steering
  publish the same commands in an iteration without the abort key, whatever their
  signal, their crosswalk confidence and the rest of the two states are (the frame slot
  filled in both or in neither).
\<close>

theorem perception_noninterference:
  assumes "begin_img (config s)" and "begin_img (config s')"
    and "img_rgb (config s) = None \<longleftrightarrow> img_rgb (config s') = None"
    and "velocity (config s) = velocity (config s')"
    and "steering (config s) = steering (config s')"
    and "waitKey e \<noteq> ord CHR ''q''" and "waitKey e' \<noteq> ord CHR ''q''"
  shows "published (fst (tick L e s)) = published (fst (tick L e' s'))"
proof (cases "img_rgb (config s)")
  case None
  with assms(3) have "img_rgb (config s') = None" by simp
  with None assms(1,2) show ?thesis
    by (simp add: tick_no_frame)
next
  case (Some i)
  with assms(3) obtain i' where i': "img_rgb (config s') = Some i'" by auto
  from tick_active [OF assms(1) Some assms(6), of L] obtain a where
    "fst (tick L e s) = [ImShow a, WaitKey,
       Publish \<lparr>linear_x = velocity (config s), linear_y = 0, linear_z = 0,
                 angular_x = 0, angular_y = 0, angular_z = steering (config s)\<rparr>, RateSleep]"
    by auto
  moreover from tick_active [OF assms(2) i' assms(7), of L] obtain b where
    "fst (tick L e' s') = [ImShow b, WaitKey,
       Publish \<lparr>linear_x = velocity (config s'), linear_y = 0, linear_z = 0,
                 angular_x = 0, angular_y = 0, angular_z = steering (config s')\<rparr>, RateSleep]"
    by auto
  ultimately show ?thesis using assms(4,5) by simp
qed

theorem perception_noninterference_witness:
  "begin_img (config (st1 ''StopPermitted'')) \<and>
   begin_img (config ((st1 ''ForwardPermitted'')
      \<lparr>config := (config (st1 ''ForwardPermitted''))\<lparr>crosswalk := 0\<rparr>\<rparr>)) \<and>
   signal (config (st1 ''StopPermitted'')) \<noteq> signal (config (st1 ''ForwardPermitted'')) \<and>
   crosswalk (config (st1 ''StopPermitted'')) \<noteq> 0 \<and>
   published (fst (tick lib0 (no_key []) (st1 ''StopPermitted''))) =
   published (fst (tick lib0 (no_key [])
      ((st1 ''ForwardPermitted'')
         \<lparr>config := (config (st1 ''ForwardPermitted''))\<lparr>crosswalk := 0\<rparr>\<rparr>)))"
  using perception_noninterference [of "st1 ''StopPermitted''"
      "(st1 ''ForwardPermitted'')\<lparr>config := (config (st1 ''ForwardPermitted''))\<lparr>crosswalk := 0\<rparr>\<rparr>"
      "no_key []" "no_key []" lib0]
  by (simp add: config_st1 no_key_def ord_q)

end
